theory Spec2Isabelle
  imports Complex_Main
begin

section \<open>Values, arrays and errors\<close>

text \<open>
  A Python float is either a finite number or one of the three special values.
  No floating-point arithmetic is performed by the code under study except the
  scaling by \<open>const.R_sun\<close>, which is kept as a parameter of the model.
\<close>

datatype pyfloat = Finite real | PosInf | NegInf | NaN

fun isfinite :: "pyfloat \<Rightarrow> bool" where
  "isfinite (Finite r) = True"
| "isfinite PosInf = False"
| "isfinite NegInf = False"
| "isfinite NaN = False"

text \<open>
  A numpy array: its shape and its elements in row-major (C) order. A well-formed
  array holds as many elements as the product of its shape.
\<close>

record 'a ndarray =
  shape :: "nat list"
  data :: "'a list"

definition ndim :: "'a ndarray \<Rightarrow> nat" where
  "ndim a = length (shape a)"

definition wf_ndarray :: "'a ndarray \<Rightarrow> bool" where
  "wf_ndarray a = (length (data a) = prod_list (shape a))"

text \<open>
  The exceptions of the module. \<open>ValueError msg shp\<close> is the \<open>ValueError\<close> raised by
  \<open>validate_seeds_shape\<close>: the text of its message before the interpolated shape, and
  that shape. The others are raised inside numpy calls: \<open>AxisError\<close> by \<open>np.flip\<close>,
  \<open>IndexError\<close> by indexing, \<open>ValueError_concatenate\<close> (a \<open>ValueError\<close>) by
  \<open>np.row_stack\<close>, \<open>TypeError\<close> by iterating over a 0-d array.
\<close>

datatype error =
    ValueError string "nat list"
  | ValueError_concatenate
  | AxisError
  | IndexError
  | TypeError

section \<open>The numpy operations used by the tracer\<close>

text \<open>\<open>chunks n c xs\<close>: the first \<open>n\<close> consecutive blocks of \<open>c\<close> elements of \<open>xs\<close>.\<close>

definition chunks :: "nat \<Rightarrow> nat \<Rightarrow> 'a list \<Rightarrow> 'a list list" where
  "chunks n c xs = map (\<lambda>i. take c (drop (i * c) xs)) [0..<n]"

text \<open>
  \<open>np.atleast_2d\<close>: a 0-d array is reshaped to \<open>(1, 1)\<close>, a 1-d array of shape \<open>(n,)\<close>
  becomes \<open>(1, n)\<close>, anything else is returned as it is.
\<close>

definition atleast_2d :: "'a ndarray \<Rightarrow> 'a ndarray" where
  "atleast_2d a =
     (if ndim a = 0 then a\<lparr>shape := [1, 1]\<rparr>
      else if ndim a = 1 then a\<lparr>shape := 1 # shape a\<rparr>
      else a)"

text \<open>
  Iteration over an array (\<open>for seed in seeds\<close>) yields its sub-arrays along the first
  axis; a 0-d array cannot be iterated over.
\<close>

definition iter_axis0 :: "'a ndarray \<Rightarrow> error + 'a ndarray list" where
  "iter_axis0 a =
     (case shape a of
        [] \<Rightarrow> Inl TypeError
      | n # rest \<Rightarrow>
          Inr (map (\<lambda>blk. \<lparr>shape = rest, data = blk\<rparr>) (chunks n (prod_list rest) (data a))))"

text \<open>\<open>np.flip(a, axis=1)\<close>: reverses the order of the entries along the second axis.\<close>

definition flip_axis1 :: "'a ndarray \<Rightarrow> error + 'a ndarray" where
  "flip_axis1 a =
     (case shape a of
        n0 # n1 # rest \<Rightarrow>
          (let c = prod_list rest
           in Inr (a\<lparr>data := concat (map (\<lambda>blk. concat (rev (chunks n1 c blk)))
                                          (chunks n0 (n1 * c) (data a)))\<rparr>))
      | _ \<Rightarrow> Inl AxisError)"

text \<open>\<open>a.T\<close>: the array with its axes reversed.\<close>

fun transpose_data :: "nat list \<Rightarrow> 'a list \<Rightarrow> 'a list" where
  "transpose_data [] xs = xs"
| "transpose_data (n # rest) xs =
     (let c = prod_list rest;
          ts = map (transpose_data rest) (chunks n c xs)
      in concat (map (\<lambda>p. map (\<lambda>t. t ! p) ts) [0..<c]))"

definition T :: "'a ndarray \<Rightarrow> 'a ndarray" where
  "T a = \<lparr>shape = rev (shape a), data = transpose_data (shape a) (data a)\<rparr>"

text \<open>
  \<open>np.row_stack((a, b))\<close>: both arrays are made at least 2-d and concatenated along the
  first axis; their other dimensions must agree.
\<close>

definition row_stack :: "'a ndarray \<Rightarrow> 'a ndarray \<Rightarrow> error + 'a ndarray" where
  "row_stack a b =
     (let a2 = atleast_2d a; b2 = atleast_2d b
      in if tl (shape a2) = tl (shape b2)
         then Inr \<lparr>shape = (hd (shape a2) + hd (shape b2)) # tl (shape a2),
                   data = data a2 @ data b2\<rparr>
         else Inl ValueError_concatenate)"

text \<open>\<open>a[:, j]\<close> for a literal index \<open>j \<ge> 0\<close>.\<close>

definition index_axis1 :: "'a ndarray \<Rightarrow> nat \<Rightarrow> error + 'a ndarray" where
  "index_axis1 a j =
     (case shape a of
        n0 # n1 # rest \<Rightarrow>
          if j < n1
          then (let c = prod_list rest
                in Inr \<lparr>shape = n0 # rest,
                        data = concat (map (\<lambda>blk. take c (drop (j * c) blk))
                                           (chunks n0 (n1 * c) (data a)))\<rparr>)
          else Inl IndexError
      | _ \<Rightarrow> Inl IndexError)"

text \<open>Elementwise application, as in \<open>a * const.R_sun\<close>.\<close>

definition map_ndarray :: "('a \<Rightarrow> 'b) \<Rightarrow> 'a ndarray \<Rightarrow> 'b ndarray" where
  "map_ndarray f a = \<lparr>shape = shape a, data = map f (data a)\<rparr>"

section \<open>The tracer\<close>

subsection \<open>\<open>Tracer.validate_seeds_shape\<close>\<close>

definition validate_seeds_shape :: "'a ndarray \<Rightarrow> error + unit" where
  "validate_seeds_shape seeds =
     (if \<not> ndim seeds = 2
      then Inl (ValueError ''seeds must be a 2D array (got shape '' (shape seeds))
      else if \<not> shape seeds ! 1 = 3
      then Inl (ValueError ''seeds must be a (n, 3) shaped array (got shape '' (shape seeds))
      else Inr ())"

subsection \<open>\<open>PythonTracer.__init__\<close>\<close>

record PythonTracer =
  atol :: pyfloat
  rtol :: pyfloat

text \<open>
  Both arguments are optional (\<open>None\<close>: the argument is left out) and default to the
  literal \<open>1e-4\<close>. The body is two assignments: nothing in it raises.
\<close>

definition PythonTracer_init :: "pyfloat option \<Rightarrow> pyfloat option \<Rightarrow> error + PythonTracer" where
  "PythonTracer_init atol_arg rtol_arg =
     Inr \<lparr>atol = (case atol_arg of None \<Rightarrow> Finite (1 / 10 ^ 4) | Some v \<Rightarrow> v),
          rtol = (case rtol_arg of None \<Rightarrow> Finite (1 / 10 ^ 4) | Some v \<Rightarrow> v)\<rparr>"

subsection \<open>The collaborators of \<open>PythonTracer.trace\<close>\<close>

text \<open>
  The \<open>output\<close> argument of \<open>trace\<close> is used through its method \<open>_integrate_one_way\<close>
  (direction, seed, rtol, atol; the result is the array of the samples, one column per
  sample) and its attribute \<open>dtime\<close>. The method is not part of the module: it is a
  field of the record, and every theorem holds for any such function.
\<close>

record 't Output =
  integrate_one_way :: "int \<Rightarrow> pyfloat ndarray \<Rightarrow> pyfloat \<Rightarrow> pyfloat \<Rightarrow> pyfloat ndarray"
  dtime :: 't

datatype frame = HeliographicCarrington

text \<open>
  Modelled from the spec: the class \<open>pfsspy.FieldLine\<close> is not part of the module. A
  field line holds what its constructor is given (the three coordinate arrays, the
  frame, the observation time and the representation type) and the two attributes
  that \<open>trace\<close> sets on it afterwards, \<open>_output\<close> and \<open>_expansion_factor\<close>.
\<close>

record ('q, 't) FieldLine =
  fl_x :: "'q ndarray"
  fl_y :: "'q ndarray"
  fl_z :: "'q ndarray"
  fl_frame :: frame
  fl_obstime :: 't
  fl_representation_type :: string
  fl_output :: "'t Output"
  fl_expansion_factor :: "pyfloat option"

subsection \<open>\<open>PythonTracer.trace\<close>\<close>

text \<open>
  Lines 72 and 73: the inward samples are flipped along the sample axis, both arrays
  are transposed and the two are stacked, the inward one first.
\<close>

definition stitch :: "'a ndarray \<Rightarrow> 'a ndarray \<Rightarrow> error + 'a ndarray" where
  "stitch xforw xback =
     (case flip_axis1 xback of
        Inl e \<Rightarrow> Inl e
      | Inr xback' \<Rightarrow> row_stack (T xback') (T xforw))"

text \<open>
  Lines 74 to 81: the field line built from the stacked array. \<open>mul_R_sun\<close> is the
  multiplication of one coordinate by \<open>const.R_sun\<close>.
\<close>

definition field_line ::
  "(pyfloat \<Rightarrow> 'q) \<Rightarrow> 't Output \<Rightarrow> pyfloat ndarray \<Rightarrow> error + ('q, 't) FieldLine" where
  "field_line mul_R_sun out xout =
     (case index_axis1 xout 0 of
        Inl e \<Rightarrow> Inl e
      | Inr c0 \<Rightarrow>
     (case index_axis1 xout 1 of
        Inl e \<Rightarrow> Inl e
      | Inr c1 \<Rightarrow>
     (case index_axis1 xout 2 of
        Inl e \<Rightarrow> Inl e
      | Inr c2 \<Rightarrow>
          Inr \<lparr>fl_x = map_ndarray mul_R_sun c0,
               fl_y = map_ndarray mul_R_sun c1,
               fl_z = map_ndarray mul_R_sun c2,
               fl_frame = HeliographicCarrington,
               fl_obstime = dtime out,
               fl_representation_type = ''cartesian'',
               fl_output = out,
               fl_expansion_factor = None\<rparr>)))"

text \<open>The body of the loop for one seed, lines 70 to 81.\<close>

definition trace_seed ::
  "(pyfloat \<Rightarrow> 'q) \<Rightarrow> PythonTracer \<Rightarrow> 't Output \<Rightarrow> pyfloat ndarray
     \<Rightarrow> error + ('q, 't) FieldLine" where
  "trace_seed mul_R_sun self out seed =
     (let xforw = integrate_one_way out 1 seed (rtol self) (atol self);
          xback = integrate_one_way out (- 1) seed (rtol self) (atol self)
      in case stitch xforw xback of
           Inl e \<Rightarrow> Inl e
         | Inr xout \<Rightarrow> field_line mul_R_sun out xout)"

text \<open>
  The loop of \<open>trace\<close>. Its state is the list \<open>flines\<close> and, for the record, the list of
  the calls made to \<open>_integrate_one_way\<close> so far (the four arguments of each), in
  order. An exception leaves the loop at once.
\<close>

type_synonym call = "int \<times> pyfloat ndarray \<times> pyfloat \<times> pyfloat"

fun trace_loop ::
  "(pyfloat \<Rightarrow> 'q) \<Rightarrow> PythonTracer \<Rightarrow> 't Output \<Rightarrow> pyfloat ndarray list
     \<Rightarrow> ('q, 't) FieldLine list \<Rightarrow> call list
     \<Rightarrow> (error + ('q, 't) FieldLine list) \<times> call list" where
  "trace_loop mul_R_sun self out [] flines calls = (Inr flines, calls)"
| "trace_loop mul_R_sun self out (seed # seeds) flines calls =
     (let calls' = calls @ [(1, seed, rtol self, atol self), (- 1, seed, rtol self, atol self)]
      in case trace_seed mul_R_sun self out seed of
           Inl e \<Rightarrow> (Inl e, calls')
         | Inr fline \<Rightarrow> trace_loop mul_R_sun self out seeds (flines @ [fline]) calls')"

definition trace ::
  "(pyfloat \<Rightarrow> 'q) \<Rightarrow> PythonTracer \<Rightarrow> pyfloat ndarray \<Rightarrow> 't Output
     \<Rightarrow> (error + ('q, 't) FieldLine list) \<times> call list" where
  "trace mul_R_sun self seeds out =
     (let seeds2 = atleast_2d seeds
      in case validate_seeds_shape seeds2 of
           Inl e \<Rightarrow> (Inl e, [])
         | Inr _ \<Rightarrow>
             (case iter_axis0 seeds2 of
                Inl e \<Rightarrow> (Inl e, [])
              | Inr rows \<Rightarrow> trace_loop mul_R_sun self out rows [] []))"

section \<open>Notions used in the statements\<close>

text \<open>\<open>seeds[i]\<close> for a batch of shape \<open>(n, 3)\<close>.\<close>

definition seed_row :: "'a ndarray \<Rightarrow> nat \<Rightarrow> 'a ndarray" where
  "seed_row seeds i = \<lparr>shape = [3], data = take 3 (drop (i * 3) (data seeds))\<rparr>"

text \<open>
  An array of samples has shape \<open>(3, k)\<close>: row \<open>j\<close> holds coordinate \<open>j\<close> of the \<open>k\<close>
  samples, and the samples are its columns.
\<close>

definition xyz_array :: "'a ndarray \<Rightarrow> bool" where
  "xyz_array a = (length (shape a) = 2 \<and> shape a ! 0 = 3 \<and> wf_ndarray a)"

definition component :: "'a ndarray \<Rightarrow> nat \<Rightarrow> 'a list" where
  "component a j = take (shape a ! 1) (drop (j * (shape a ! 1)) (data a))"

definition samples :: "'a ndarray \<Rightarrow> ('a \<times> 'a \<times> 'a) list" where
  "samples a = zip (component a 0) (zip (component a 1) (component a 2))"

text \<open>The integrator returns arrays of samples for this seed, in both directions.\<close>

definition integrates_ok :: "PythonTracer \<Rightarrow> 't Output \<Rightarrow> pyfloat ndarray \<Rightarrow> bool" where
  "integrates_ok self out seed =
     (xyz_array (integrate_one_way out 1 seed (rtol self) (atol self)) \<and>
      xyz_array (integrate_one_way out (- 1) seed (rtol self) (atol self)))"

text \<open>The point sequence of a field line, and the scaling of one point.\<close>

definition fl_points :: "('q, 't) FieldLine \<Rightarrow> ('q \<times> 'q \<times> 'q) list" where
  "fl_points fl = zip (data (fl_x fl)) (zip (data (fl_y fl)) (data (fl_z fl)))"

fun scale_point :: "('a \<Rightarrow> 'q) \<Rightarrow> 'a \<times> 'a \<times> 'a \<Rightarrow> 'q \<times> 'q \<times> 'q" where
  "scale_point f (x, y, z) = (f x, f y, f z)"

text \<open>What the specification asks of a tolerance: a float greater than zero.\<close>

fun spec_tolerance_ok :: "pyfloat \<Rightarrow> bool" where
  "spec_tolerance_ok (Finite r) = (0 < r)"
| "spec_tolerance_ok PosInf = True"
| "spec_tolerance_ok NegInf = False"
| "spec_tolerance_ok NaN = False"

text \<open>The seed as a point, and how often it occurs in the point sequence of a field line.\<close>

definition point_of :: "'a ndarray \<Rightarrow> 'a \<times> 'a \<times> 'a" where
  "point_of seed = (data seed ! 0, data seed ! 1, data seed ! 2)"

definition seed_occurrences ::
  "(pyfloat \<Rightarrow> 'q) \<Rightarrow> pyfloat ndarray \<Rightarrow> ('q, 't) FieldLine \<Rightarrow> nat" where
  "seed_occurrences mul_R_sun seed fl =
     count_list (fl_points fl) (scale_point mul_R_sun (point_of seed))"

text \<open>
  Modelled from the spec: the streamline integrator of section 4.2, whose code is not
  part of the module. A field solution gives the accepted step of the adaptive method
  from a point in a direction (\<open>+1\<close> outward, \<open>-1\<close> inward; this is where the field
  and the tolerances enter) and the outer radius of the shell; the inner radius is 1.
  After every accepted step the new point is tested: with a radius of at most the
  inner radius it is clamped to the inner boundary and the integration stops; with a
  radius of at least the outer radius it is clamped to the outer boundary and the
  integration stops; otherwise, when the step count has reached the maximum, the
  integration stops and is flagged. The result is the sequence of points from the seed
  to the stopping point and the status flag.
\<close>

datatype status = reached_inner | reached_outer | max_steps_exceeded

type_synonym point = "real \<times> real \<times> real"

record solution =
  next_point :: "int \<Rightarrow> point \<Rightarrow> point"
  outer_radius :: real

fun radius :: "point \<Rightarrow> real" where
  "radius (x, y, z) = sqrt (x\<^sup>2 + y\<^sup>2 + z\<^sup>2)"

fun clamp :: "real \<Rightarrow> point \<Rightarrow> point" where
  "clamp r (x, y, z) =
     (r * x / radius (x, y, z), r * y / radius (x, y, z), r * z / radius (x, y, z))"

fun integrate_steps :: "solution \<Rightarrow> int \<Rightarrow> nat \<Rightarrow> point \<Rightarrow> point list \<times> status" where
  "integrate_steps sol direction 0 p = ([p], max_steps_exceeded)"
| "integrate_steps sol direction (Suc steps_left) p =
     (let q = next_point sol direction p
      in if radius q \<le> 1 then ([p, clamp 1 q], reached_inner)
         else if outer_radius sol \<le> radius q
         then ([p, clamp (outer_radius sol) q], reached_outer)
         else (case integrate_steps sol direction steps_left q of
                 (ps, st) \<Rightarrow> (p # ps, st)))"

text \<open>
  The output object of such a solution with a maximum step count: its method
  \<open>_integrate_one_way\<close> returns the points as an array of shape \<open>(3, k)\<close>, and nothing
  else. A seed must be a finite point; for any other the array holds the seed alone.
\<close>

fun seed_point :: "pyfloat list \<Rightarrow> point option" where
  "seed_point [Finite x, Finite y, Finite z] = Some (x, y, z)"
| "seed_point cs = None"

fun coord_x :: "point \<Rightarrow> pyfloat" where
  "coord_x (x, y, z) = Finite x"

fun coord_y :: "point \<Rightarrow> pyfloat" where
  "coord_y (x, y, z) = Finite y"

fun coord_z :: "point \<Rightarrow> pyfloat" where
  "coord_z (x, y, z) = Finite z"

definition array_of_points :: "point list \<Rightarrow> pyfloat ndarray" where
  "array_of_points ps =
     \<lparr>shape = [3, length ps], data = map coord_x ps @ map coord_y ps @ map coord_z ps\<rparr>"

definition spec_integrate_one_way ::
  "solution \<Rightarrow> nat \<Rightarrow> int \<Rightarrow> pyfloat ndarray \<Rightarrow> pyfloat \<Rightarrow> pyfloat \<Rightarrow> pyfloat ndarray" where
  "spec_integrate_one_way sol max_steps direction seed rtol_arg atol_arg =
     (case seed_point (data seed) of
        None \<Rightarrow> \<lparr>shape = [3, 1], data = data seed\<rparr>
      | Some p \<Rightarrow> array_of_points (fst (integrate_steps sol direction max_steps p)))"

definition spec_output :: "solution \<Rightarrow> nat \<Rightarrow> 't \<Rightarrow> 't Output" where
  "spec_output sol max_steps t =
     \<lparr>integrate_one_way = spec_integrate_one_way sol max_steps, dtime = t\<rparr>"

text \<open>The status of the half-trace from a seed in one direction.\<close>

definition half_trace_status :: "solution \<Rightarrow> nat \<Rightarrow> int \<Rightarrow> pyfloat ndarray \<Rightarrow> status option" where
  "half_trace_status sol max_steps direction seed =
     map_option (\<lambda>p. snd (integrate_steps sol direction max_steps p)) (seed_point (data seed))"

text \<open>A field line with its back reference to the output object replaced.\<close>

definition with_output ::
  "'t Output \<Rightarrow> error + ('q, 't) FieldLine \<Rightarrow> error + ('q, 't) FieldLine" where
  "with_output out r = (case r of Inl e \<Rightarrow> Inl e | Inr fl \<Rightarrow> Inr (fl\<lparr>fl_output := out\<rparr>))"

subsection \<open>Concrete inputs for the examples\<close>

text \<open>A coordinate times \<open>const.R_sun\<close>, kept as a formal product.\<close>

datatype quantity = Times_R_sun pyfloat

text \<open>
  An integrator that returns two samples whatever the field: the seed itself, then the
  point \<open>(direction, 0, 0)\<close>.
\<close>

definition two_samples :: "int \<Rightarrow> pyfloat ndarray \<Rightarrow> pyfloat \<Rightarrow> pyfloat \<Rightarrow> pyfloat ndarray" where
  "two_samples direction seed rtol_arg atol_arg =
     \<lparr>shape = [3, 2],
      data = [data seed ! 0, Finite (of_int direction),
              data seed ! 1, Finite 0,
              data seed ! 2, Finite 0]\<rparr>"

text \<open>
  A field of unit vectors along the first axis in a shell of outer radius \<open>rho\<close>:
  every accepted step moves the point by one half along that axis.
\<close>

fun shift_x :: "int \<Rightarrow> point \<Rightarrow> point" where
  "shift_x direction (x, y, z) = (x + of_int direction / 2, y, z)"

definition x_axis_solution :: "real \<Rightarrow> solution" where
  "x_axis_solution rho = \<lparr>next_point = shift_x, outer_radius = rho\<rparr>"

definition mid_seed :: "pyfloat ndarray" where
  "mid_seed = \<lparr>shape = [3], data = [Finite (3 / 2), Finite 0, Finite 0]\<rparr>"

definition mixed_seeds :: "pyfloat ndarray" where
  "mixed_seeds =
     \<lparr>shape = [2, 3], data = [Finite 1, Finite 2, Finite 3, NaN, NegInf, Finite 0]\<rparr>"

definition example_output :: "unit Output" where
  "example_output = \<lparr>integrate_one_way = two_samples, dtime = ()\<rparr>"

definition example_tracer :: PythonTracer where
  "example_tracer = \<lparr>atol = Finite (1 / 10 ^ 4), rtol = Finite (1 / 10 ^ 4)\<rparr>"

definition example_seed :: "pyfloat ndarray" where
  "example_seed = \<lparr>shape = [3], data = [Finite 1, Finite 2, Finite 3]\<rparr>"

definition example_seeds :: "pyfloat ndarray" where
  "example_seeds =
     \<lparr>shape = [2, 3], data = [Finite 1, Finite 2, Finite 3, Finite 4, Finite 5, Finite 6]\<rparr>"

definition nonfinite_seeds :: "pyfloat ndarray" where
  "nonfinite_seeds = \<lparr>shape = [1, 3], data = [NaN, Finite 0, PosInf]\<rparr>"

definition malformed_seeds :: "pyfloat ndarray" where
  "malformed_seeds = \<lparr>shape = [2, 2], data = [Finite 1, Finite 0, Finite 0, Finite 1]\<rparr>"

section \<open>Auxiliary facts\<close>

lemma length_chunks [simp]: "length (chunks n c xs) = n"
  by (simp add: chunks_def)

lemma chunks_0 [simp]: "chunks 0 c xs = []"
  by (simp add: chunks_def)

lemma chunks_Suc: "chunks (Suc n) c xs = take c xs # chunks n c (drop c xs)"
proof -
  have "[0..<Suc n] = 0 # map Suc [0..<n]"
    by (simp add: upt_conv_Cons map_Suc_upt del: upt_Suc)
  then show ?thesis
    by (simp add: chunks_def comp_def add.commute del: upt_Suc)
qed

lemma chunks_nth: "i < n \<Longrightarrow> chunks n c xs ! i = take c (drop (i * c) xs)"
  by (simp add: chunks_def)

lemma chunks_concat:
  "\<forall>r \<in> set rs. length r = c \<Longrightarrow> chunks (length rs) c (concat rs) = rs"
  by (induction rs) (simp_all add: chunks_Suc)

lemma chunks_append:
  "length xs = n * c \<Longrightarrow> chunks (n + m) c (xs @ ys) = chunks n c xs @ chunks m c ys"
proof (induction n arbitrary: xs)
  case 0
  then show ?case by simp
next
  case (Suc n)
  then show ?case by (simp add: chunks_Suc)
qed

lemma concat_chunks: "length xs = n * c \<Longrightarrow> concat (chunks n c xs) = xs"
proof (induction n arbitrary: xs)
  case 0
  then show ?case by simp
next
  case (Suc n)
  then show ?case by (simp add: chunks_Suc)
qed

lemma length_chunk:
  "length xs = n * c \<Longrightarrow> r \<in> set (chunks n c xs) \<Longrightarrow> length r = c"
proof (induction n arbitrary: xs)
  case 0
  then show ?case by simp
next
  case (Suc n)
  show ?case
    using Suc.IH [of "drop c xs"] Suc.prems by (auto simp add: chunks_Suc)
qed

lemma chunks_1: "length xs = n \<Longrightarrow> chunks n (Suc 0) xs = map (\<lambda>x. [x]) xs"
proof (induction n arbitrary: xs)
  case 0
  then show ?case by simp
next
  case (Suc n)
  then show ?case by (cases xs) (simp_all add: chunks_Suc)
qed

lemma length_chunks_nth:
  "length xs = n * c \<Longrightarrow> i < n \<Longrightarrow> length (chunks n c xs ! i) = c"
  using length_chunk [of xs n c "chunks n c xs ! i"] by simp

lemma concat_rev_singletons: "concat (rev (map (\<lambda>x. [x]) xs)) = rev xs"
  by (induction xs) simp_all

lemma concat_rev_chunks_1: "length xs = n \<Longrightarrow> concat (rev (chunks n (Suc 0) xs)) = rev xs"
  by (simp add: chunks_1 concat_rev_singletons)

lemma transpose_data_1d: "length xs = n \<Longrightarrow> transpose_data [n] xs = xs"
  by (simp add: chunks_1 comp_def)

lemma transpose_data_2d:
  assumes "length xs = n * k"
  shows "transpose_data [n, k] xs = concat (map (\<lambda>p. map (\<lambda>r. r ! p) (chunks n k xs)) [0..<k])"
proof -
  have h: "map (transpose_data [k]) (chunks n k xs) = chunks n k xs"
    using assms length_chunk [of xs n k]
    by (intro map_idI transpose_data_1d) auto
  have "transpose_data [n, k] xs =
          concat (map (\<lambda>p. map (\<lambda>t. t ! p) (map (transpose_data [k]) (chunks n k xs))) [0..<k])"
    unfolding transpose_data.simps(2) [of n "[k]"] Let_def
    by (simp del: transpose_data.simps map_map)
  then show ?thesis unfolding h .
qed

lemma take1_drop: "j < length xs \<Longrightarrow> take (Suc 0) (drop j xs) = [xs ! j]"
  by (simp add: take_Suc_conv_app_nth)

lemma chunks_columns:
  "chunks k (length rs) (concat (map (\<lambda>p. map (\<lambda>r. r ! p) rs) [0..<k]))
     = map (\<lambda>p. map (\<lambda>r. r ! p) rs) [0..<k]"
  using chunks_concat [of "map (\<lambda>p. map (\<lambda>r. r ! p) rs) [0..<k]" "length rs"] by simp

lemma select_columns:
  "j < length rs \<Longrightarrow>
   concat (map (\<lambda>blk. take (Suc 0) (drop j blk)) (map (\<lambda>p. map (\<lambda>r. r ! p) rs) [0..<k]))
     = map (\<lambda>p. rs ! j ! p) [0..<k]"
  by (simp add: comp_def take1_drop)

lemma map_nth_upt: "length xs = k \<Longrightarrow> map (\<lambda>p. xs ! p) [0..<k] = xs"
  using map_nth [of xs] by simp

lemma flip_axis1_2d:
  assumes "shape a = [n, k]" "length (data a) = n * k"
  shows "flip_axis1 a = Inr \<lparr>shape = [n, k], data = concat (map rev (chunks n k (data a)))\<rparr>"
proof -
  have "map (\<lambda>blk. concat (rev (chunks k (Suc 0) blk))) (chunks n k (data a))
          = map rev (chunks n k (data a))"
    using assms(2) length_chunk [of "data a" n k]
    by (intro map_cong refl concat_rev_chunks_1) auto
  moreover have "flip_axis1 a =
      Inr (a\<lparr>data := concat (map (\<lambda>blk. concat (rev (chunks k (Suc 0) blk)))
                                 (chunks n k (data a)))\<rparr>)"
    using assms(1) by (simp add: flip_axis1_def)
  moreover have "a\<lparr>data := d\<rparr> = \<lparr>shape = [n, k], data = d\<rparr>" for d
    using assms(1) by (cases a) simp
  ultimately show ?thesis
    by (simp only:)
qed

lemma T_2d:
  assumes "shape a = [n, k]" "length (data a) = n * k"
  shows "T a = \<lparr>shape = [k, n],
                 data = concat (map (\<lambda>p. map (\<lambda>r. r ! p) (chunks n k (data a))) [0..<k])\<rparr>"
  using assms by (simp add: T_def transpose_data_2d del: transpose_data.simps)

lemma length_columns:
  "length (concat (map (\<lambda>p. map (\<lambda>r. r ! p) rs) [0..<k])) = k * length rs"
  by (induction k) simp_all

lemma length_concat_const:
  "\<forall>r \<in> set rs. length r = c \<Longrightarrow> length (concat rs) = length rs * c"
  by (induction rs) simp_all

lemma atleast_2d_2d: "shape a = [n, k] \<Longrightarrow> atleast_2d a = a"
  by (simp add: atleast_2d_def ndim_def)

lemma stitch_2d:
  assumes "shape xb = [3, kb]" "length (data xb) = 3 * kb"
      and "shape xf = [3, kf]" "length (data xf) = 3 * kf"
  shows "stitch xf xb =
    Inr \<lparr>shape = [kb + kf, 3],
         data = concat (map (\<lambda>p. map (\<lambda>r. r ! p) (map rev (chunks 3 kb (data xb)))) [0..<kb])
              @ concat (map (\<lambda>p. map (\<lambda>r. r ! p) (chunks 3 kf (data xf))) [0..<kf])\<rparr>"
proof -
  let ?rb = "map rev (chunks 3 kb (data xb))"
  let ?xb' = "\<lparr>shape = [3, kb], data = concat ?rb\<rparr>"
  have flip: "flip_axis1 xb = Inr ?xb'"
    using assms(1,2) by (rule flip_axis1_2d)
  have len: "\<forall>r \<in> set ?rb. length r = kb"
    using length_chunk [of "data xb" 3 kb] assms(2) by auto
  have ch: "chunks 3 kb (concat ?rb) = ?rb"
    using chunks_concat [OF len] by simp
  have "length (concat ?rb) = 3 * kb"
    using length_concat_const [OF len] by simp
  then have Tb: "T ?xb' = \<lparr>shape = [kb, 3],
       data = concat (map (\<lambda>p. map (\<lambda>r. r ! p) ?rb) [0..<kb])\<rparr>"
    using T_2d [of ?xb' 3 kb] ch by simp
  have Tf: "T xf = \<lparr>shape = [kf, 3],
       data = concat (map (\<lambda>p. map (\<lambda>r. r ! p) (chunks 3 kf (data xf))) [0..<kf])\<rparr>"
    using assms(3,4) by (rule T_2d)
  have "stitch xf xb = row_stack (T ?xb') (T xf)"
    by (simp add: stitch_def flip)
  also have "\<dots> = row_stack
       \<lparr>shape = [kb, 3], data = concat (map (\<lambda>p. map (\<lambda>r. r ! p) ?rb) [0..<kb])\<rparr>
       \<lparr>shape = [kf, 3],
        data = concat (map (\<lambda>p. map (\<lambda>r. r ! p) (chunks 3 kf (data xf))) [0..<kf])\<rparr>"
    by (simp only: Tb Tf)
  also have "\<dots> = Inr \<lparr>shape = [kb + kf, 3],
         data = concat (map (\<lambda>p. map (\<lambda>r. r ! p) ?rb) [0..<kb])
              @ concat (map (\<lambda>p. map (\<lambda>r. r ! p) (chunks 3 kf (data xf))) [0..<kf])\<rparr>"
    by (simp add: row_stack_def atleast_2d_2d del: map_map)
  finally show ?thesis .
qed

lemma index_axis1_stacked:
  assumes "length rb = 3" "length rf = 3" "j < 3"
  shows "index_axis1
           \<lparr>shape = [kb + kf, 3],
            data = concat (map (\<lambda>p. map (\<lambda>r. r ! p) rb) [0..<kb])
                 @ concat (map (\<lambda>p. map (\<lambda>r. r ! p) rf) [0..<kf])\<rparr> j
         = Inr \<lparr>shape = [kb + kf],
                data = map (\<lambda>p. rb ! j ! p) [0..<kb] @ map (\<lambda>p. rf ! j ! p) [0..<kf]\<rparr>"
proof -
  let ?A = "concat (map (\<lambda>p. map (\<lambda>r. r ! p) rb) [0..<kb])"
  let ?B = "concat (map (\<lambda>p. map (\<lambda>r. r ! p) rf) [0..<kf])"
  have "length ?A = kb * 3"
    using length_columns [of rb kb] assms(1) by simp
  then have "chunks (kb + kf) 3 (?A @ ?B) = chunks kb 3 ?A @ chunks kf 3 ?B"
    by (rule chunks_append)
  also have "chunks kb 3 ?A = map (\<lambda>p. map (\<lambda>r. r ! p) rb) [0..<kb]"
    using chunks_columns [of kb rb] assms(1) by simp
  also have "chunks kf 3 ?B = map (\<lambda>p. map (\<lambda>r. r ! p) rf) [0..<kf]"
    using chunks_columns [of kf rf] assms(2) by simp
  finally have ch: "chunks (kb + kf) 3 (?A @ ?B) =
      map (\<lambda>p. map (\<lambda>r. r ! p) rb) [0..<kb] @ map (\<lambda>p. map (\<lambda>r. r ! p) rf) [0..<kf]" .
  have "index_axis1 \<lparr>shape = [kb + kf, 3], data = ?A @ ?B\<rparr> j =
      Inr \<lparr>shape = [kb + kf],
           data = concat (map (\<lambda>blk. take (Suc 0) (drop j blk)) (chunks (kb + kf) 3 (?A @ ?B)))\<rparr>"
    using assms(3) by (simp add: index_axis1_def del: map_append)
  also have "concat (map (\<lambda>blk. take (Suc 0) (drop j blk)) (chunks (kb + kf) 3 (?A @ ?B)))
      = map (\<lambda>p. rb ! j ! p) [0..<kb] @ map (\<lambda>p. rf ! j ! p) [0..<kf]"
    unfolding ch using select_columns [of j rb kb] select_columns [of j rf kf] assms
    by (simp del: map_map)
  finally show ?thesis .
qed


lemma xyz_arrayD:
  assumes "xyz_array a"
  shows "shape a = [3, shape a ! 1]" and "length (data a) = 3 * (shape a ! 1)"
proof -
  from assms obtain n k where sh: "shape a = [n, k]"
    by (cases "shape a"; cases "tl (shape a)") (auto simp add: xyz_array_def)
  with assms show "shape a = [3, shape a ! 1]"
    by (simp add: xyz_array_def)
  with assms show "length (data a) = 3 * (shape a ! 1)"
    by (simp add: xyz_array_def wf_ndarray_def sh)
qed

lemma component_chunks:
  "j < 3 \<Longrightarrow> component a j = chunks 3 (shape a ! 1) (data a) ! j"
  by (simp add: component_def chunks_nth)

lemma length_component:
  "xyz_array a \<Longrightarrow> j < 3 \<Longrightarrow> length (component a j) = shape a ! 1"
  using xyz_arrayD(2) [of a] by (simp add: component_chunks length_chunks_nth)

lemma field_line_stacked:
  assumes "length rb = 3" "length rf = 3"
  shows "field_line mul out
           \<lparr>shape = [kb + kf, 3],
            data = concat (map (\<lambda>p. map (\<lambda>r. r ! p) rb) [0..<kb])
                 @ concat (map (\<lambda>p. map (\<lambda>r. r ! p) rf) [0..<kf])\<rparr>
         = Inr \<lparr>fl_x = \<lparr>shape = [kb + kf],
                  data = map mul (map (\<lambda>p. rb ! 0 ! p) [0..<kb] @ map (\<lambda>p. rf ! 0 ! p) [0..<kf])\<rparr>,
                fl_y = \<lparr>shape = [kb + kf],
                  data = map mul (map (\<lambda>p. rb ! 1 ! p) [0..<kb] @ map (\<lambda>p. rf ! 1 ! p) [0..<kf])\<rparr>,
                fl_z = \<lparr>shape = [kb + kf],
                  data = map mul (map (\<lambda>p. rb ! 2 ! p) [0..<kb] @ map (\<lambda>p. rf ! 2 ! p) [0..<kf])\<rparr>,
                fl_frame = HeliographicCarrington,
                fl_obstime = dtime out,
                fl_representation_type = ''cartesian'',
                fl_output = out,
                fl_expansion_factor = None\<rparr>"
  unfolding field_line_def
  by (simp only: index_axis1_stacked [OF assms] sum.case map_ndarray_def ndarray.simps)

lemma trace_seed_xyz:
  assumes "integrates_ok self out seed"
  defines "xf \<equiv> integrate_one_way out 1 seed (rtol self) (atol self)"
      and "xb \<equiv> integrate_one_way out (- 1) seed (rtol self) (atol self)"
  shows "trace_seed mul self out seed =
     Inr \<lparr>fl_x = \<lparr>shape = [shape xb ! 1 + shape xf ! 1],
                    data = map mul (rev (component xb 0) @ component xf 0)\<rparr>,
          fl_y = \<lparr>shape = [shape xb ! 1 + shape xf ! 1],
                    data = map mul (rev (component xb 1) @ component xf 1)\<rparr>,
          fl_z = \<lparr>shape = [shape xb ! 1 + shape xf ! 1],
                    data = map mul (rev (component xb 2) @ component xf 2)\<rparr>,
          fl_frame = HeliographicCarrington,
          fl_obstime = dtime out,
          fl_representation_type = ''cartesian'',
          fl_output = out,
          fl_expansion_factor = None\<rparr>"
proof -
  let ?kb = "shape xb ! 1" and ?kf = "shape xf ! 1"
  let ?rb = "map rev (chunks 3 ?kb (data xb))" and ?rf = "chunks 3 ?kf (data xf)"
  have ok: "xyz_array xf" "xyz_array xb"
    using assms by (simp_all add: integrates_ok_def)
  have st: "stitch xf xb =
    Inr \<lparr>shape = [?kb + ?kf, 3],
         data = concat (map (\<lambda>p. map (\<lambda>r. r ! p) ?rb) [0..<?kb])
              @ concat (map (\<lambda>p. map (\<lambda>r. r ! p) ?rf) [0..<?kf])\<rparr>"
    using xyz_arrayD [OF ok(2)] xyz_arrayD [OF ok(1)] by (rule stitch_2d)
  have b: "map (\<lambda>p. ?rb ! j ! p) [0..<?kb] = rev (component xb j)" if "j < 3" for j
  proof -
    have "?rb ! j = rev (component xb j)"
      using that by (simp only: component_chunks [OF that] nth_map length_chunks)
    moreover have "length (rev (component xb j)) = ?kb"
      using length_component [OF ok(2) that] by simp
    ultimately show ?thesis
      by (simp only: map_nth_upt)
  qed
  have f: "map (\<lambda>p. ?rf ! j ! p) [0..<?kf] = component xf j" if "j < 3" for j
  proof -
    have "?rf ! j = component xf j"
      by (simp only: component_chunks [OF that])
    moreover have "length (component xf j) = ?kf"
      using length_component [OF ok(1) that] .
    ultimately show ?thesis
      by (simp only: map_nth_upt)
  qed
  have "trace_seed mul self out seed =
      field_line mul out \<lparr>shape = [?kb + ?kf, 3],
         data = concat (map (\<lambda>p. map (\<lambda>r. r ! p) ?rb) [0..<?kb])
              @ concat (map (\<lambda>p. map (\<lambda>r. r ! p) ?rf) [0..<?kf])\<rparr>"
    using st by (simp add: trace_seed_def xf_def xb_def Let_def del: map_map)
  also have "\<dots> = Inr \<lparr>fl_x = \<lparr>shape = [?kb + ?kf],
                  data = map mul (map (\<lambda>p. ?rb ! 0 ! p) [0..<?kb] @ map (\<lambda>p. ?rf ! 0 ! p) [0..<?kf])\<rparr>,
                fl_y = \<lparr>shape = [?kb + ?kf],
                  data = map mul (map (\<lambda>p. ?rb ! 1 ! p) [0..<?kb] @ map (\<lambda>p. ?rf ! 1 ! p) [0..<?kf])\<rparr>,
                fl_z = \<lparr>shape = [?kb + ?kf],
                  data = map mul (map (\<lambda>p. ?rb ! 2 ! p) [0..<?kb] @ map (\<lambda>p. ?rf ! 2 ! p) [0..<?kf])\<rparr>,
                fl_frame = HeliographicCarrington,
                fl_obstime = dtime out,
                fl_representation_type = ''cartesian'',
                fl_output = out,
                fl_expansion_factor = None\<rparr>"
    by (rule field_line_stacked) simp_all
  finally show ?thesis
    by (simp only: b f)
qed

lemma zip3_stitched:
  assumes "length b0 = length b1" "length b1 = length b2"
  shows "zip (map m (rev b0 @ f0)) (zip (map m (rev b1 @ f1)) (map m (rev b2 @ f2)))
       = map (scale_point m) (rev (zip b0 (zip b1 b2)) @ zip f0 (zip f1 f2))"
proof -
  have "rev (zip b0 (zip b1 b2)) = zip (rev b0) (zip (rev b1) (rev b2))"
    using assms by (simp add: zip_rev)
  moreover have "map (scale_point m) (zip xs (zip ys zs)) = zip (map m xs) (zip (map m ys) (map m zs))"
    for xs ys zs :: "'a list"
    by (auto simp add: zip_map_map)
  ultimately show ?thesis
    using assms by simp
qed

lemma fl_points_trace_seed:
  assumes "integrates_ok self out seed" "trace_seed mul self out seed = Inr fl"
  shows "fl_points fl =
    map (scale_point mul)
      (rev (samples (integrate_one_way out (- 1) seed (rtol self) (atol self)))
       @ samples (integrate_one_way out 1 seed (rtol self) (atol self)))"
proof -
  let ?xb = "integrate_one_way out (- 1) seed (rtol self) (atol self)"
  have ok: "xyz_array ?xb"
    using assms(1) by (simp add: integrates_ok_def)
  have len: "length (component ?xb 0) = length (component ?xb 1)"
            "length (component ?xb 1) = length (component ?xb 2)"
    using ok by (simp_all add: length_component)
  show ?thesis
    using assms(2) unfolding trace_seed_xyz [OF assms(1)] samples_def
    by (auto simp only: fl_points_def FieldLine.simps ndarray.simps zip3_stitched [OF len] sum.inject)
qed

lemma trace_seed_ok:
  "integrates_ok self out seed \<Longrightarrow> \<exists>fl. trace_seed mul self out seed = Inr fl"
  by (simp only: trace_seed_xyz) blast

lemma trace_loop_ok:
  "map (trace_seed mul self out) rows = map Inr new \<Longrightarrow>
   trace_loop mul self out rows flines calls =
     (Inr (flines @ new), calls @ concat (map (\<lambda>s. [(1, s, rtol self, atol self), (- 1, s, rtol self, atol self)]) rows))"
proof (induction rows arbitrary: new flines calls)
  case Nil
  then show ?case by simp
next
  case (Cons seed rows)
  then obtain fl new' where new: "new = fl # new'"
    "trace_seed mul self out seed = Inr fl"
    "map (trace_seed mul self out) rows = map Inr new'"
    by (cases new) auto
  show ?case
    using Cons.IH [OF new(3)] new(1,2) by simp
qed

lemma trace_loop_Inr:
  "fst (trace_loop mul self out rows flines calls) = Inr res \<Longrightarrow>
   \<exists>new. res = flines @ new \<and> map (trace_seed mul self out) rows = map Inr new"
proof (induction rows arbitrary: flines calls)
  case Nil
  then show ?case by simp
next
  case (Cons seed rows)
  show ?case
  proof (cases "trace_seed mul self out seed")
    case (Inl e)
    with Cons.prems show ?thesis by simp
  next
    case (Inr fl)
    with Cons.prems have
      "fst (trace_loop mul self out rows (flines @ [fl]) (calls @ [(1, seed, rtol self, atol self), (- 1, seed, rtol self, atol self)])) = Inr res"
      by simp
    from Cons.IH [OF this] obtain new where
      "res = (flines @ [fl]) @ new" "map (trace_seed mul self out) rows = map Inr new"
      by blast
    with Inr have "res = flines @ (fl # new) \<and>
        map (trace_seed mul self out) (seed # rows) = map Inr (fl # new)"
      by simp
    then show ?thesis by blast
  qed
qed

lemma iter_axis0_seeds:
  "shape seeds = [n, 3] \<Longrightarrow> iter_axis0 seeds = Inr (map (seed_row seeds) [0..<n])"
  by (simp add: iter_axis0_def chunks_def seed_row_def)

lemma validate_seeds_shape_ok:
  "shape seeds = [n, 3] \<Longrightarrow> validate_seeds_shape seeds = Inr ()"
  by (simp add: validate_seeds_shape_def ndim_def)

lemma trace_valid_batch:
  "shape seeds = [n, 3] \<Longrightarrow>
   trace mul self seeds out = trace_loop mul self out (map (seed_row seeds) [0..<n]) [] []"
  by (simp add: trace_def atleast_2d_2d validate_seeds_shape_ok iter_axis0_seeds)

lemma trace_loop_calls:
  "\<exists>more. snd (trace_loop mul self out rows flines calls) = calls @ more"
proof (induction rows arbitrary: flines calls)
  case Nil
  then show ?case by simp
next
  case (Cons seed rows)
  show ?case
  proof (cases "trace_seed mul self out seed")
    case (Inl e)
    then show ?thesis by simp
  next
    case (Inr fl)
    from Cons.IH [of "flines @ [fl]"
        "calls @ [(1, seed, rtol self, atol self), (- 1, seed, rtol self, atol self)]"]
    show ?thesis using Inr by auto
  qed
qed

lemma trace_loop_first_calls:
  "take 2 (snd (trace_loop mul self out (seed # rows) [] []))
     = [(1, seed, rtol self, atol self), (- 1, seed, rtol self, atol self)]"
proof (cases "trace_seed mul self out seed")
  case (Inl e)
  then show ?thesis by simp
next
  case (Inr fl)
  from trace_loop_calls [of mul self out rows "[fl]"
      "[(1, seed, rtol self, atol self), (- 1, seed, rtol self, atol self)]"]
  show ?thesis using Inr by auto
qed

lemma trace_single:
  assumes "shape seed = [3]" "length (data seed) \<le> 3"
  shows "trace mul self seed out =
     (case trace_seed mul self out seed of Inl e \<Rightarrow> Inl e | Inr fline \<Rightarrow> Inr [fline],
      [(1, seed, rtol self, atol self), (- 1, seed, rtol self, atol self)])"
proof -
  have a: "atleast_2d seed = \<lparr>shape = [1, 3], data = data seed\<rparr>"
    using assms(1) by (cases seed) (simp add: atleast_2d_def ndim_def)
  have "seed_row \<lparr>shape = [1, 3], data = data seed\<rparr> 0 = seed"
    using assms by (cases seed) (simp add: seed_row_def)
  then have "trace mul self seed out = trace_loop mul self out [seed] [] []"
    unfolding trace_def a Let_def
    by (simp add: validate_seeds_shape_ok iter_axis0_seeds)
  then show ?thesis
    by (simp split: sum.split)
qed

lemma integrates_ok_two_samples:
  "integrate_one_way out = two_samples \<Longrightarrow> integrates_ok self out seed"
  by (simp add: integrates_ok_def xyz_array_def wf_ndarray_def two_samples_def)

lemma samples_two_samples:
  "samples (two_samples d seed rt atl) = [point_of seed, (Finite (of_int d), Finite 0, Finite 0)]"
  by (simp add: samples_def component_def two_samples_def point_of_def)

lemma trace_loop_iff:
  "fst (trace_loop mul self out rows [] []) = Inr flines
     \<longleftrightarrow> map (trace_seed mul self out) rows = map Inr flines"
  using trace_loop_Inr [of mul self out rows "[]" "[]" flines]
        trace_loop_ok [of mul self out rows flines "[]" "[]"]
  by auto

lemma singleton_result_iff:
  "(case r of Inl e \<Rightarrow> Inl e | Inr fline \<Rightarrow> Inr [fline]) = Inr [g] \<longleftrightarrow> r = Inr g"
  by (cases r) simp_all

lemma radius_on_axis: "0 \<le> x \<Longrightarrow> radius (x, 0, 0) = x"
  by simp

lemma integrate_one_way_spec_output:
  "integrate_one_way (spec_output sol m t) d \<lparr>shape = shp, data = [Finite x, Finite y, Finite z]\<rparr> rt atl
     = array_of_points (fst (integrate_steps sol d m (x, y, z)))"
  by (simp add: spec_output_def spec_integrate_one_way_def)

lemma trace_seed_same_samples:
  assumes "integrate_one_way out1 1 seed (rtol self) (atol self)
             = integrate_one_way out2 1 seed (rtol self) (atol self)"
      and "integrate_one_way out1 (- 1) seed (rtol self) (atol self)
             = integrate_one_way out2 (- 1) seed (rtol self) (atol self)"
      and "dtime out1 = dtime out2"
  shows "with_output out (trace_seed mul self out1 seed)
       = with_output out (trace_seed mul self out2 seed)"
  using assms
  by (auto simp add: with_output_def trace_seed_def field_line_def Let_def split: sum.splits)

lemma trace_seed_attributes:
  assumes "trace_seed mul self out1 seed = Inr fl"
  shows "fl_frame fl = HeliographicCarrington \<and> fl_obstime fl = dtime out1
       \<and> fl_representation_type fl = ''cartesian'' \<and> fl_output fl = out1
       \<and> fl_expansion_factor fl = None"
  using assms
  by (auto simp add: trace_seed_def field_line_def Let_def split: sum.splits)

lemma steps_A: "integrate_steps (x_axis_solution (5 / 2)) 1 (Suc 0) (3 / 2, 0, 0)
    = ([(3 / 2, 0, 0), (2, 0, 0)], max_steps_exceeded)"
  by (simp add: x_axis_solution_def)

lemma steps_inward: "0 < m \<Longrightarrow> integrate_steps (x_axis_solution rho) (- 1) m (3 / 2, 0, 0)
    = ([(3 / 2, 0, 0), (1, 0, 0)], reached_inner)"
  by (cases m) (simp_all add: x_axis_solution_def)

lemma steps_B: "0 < m \<Longrightarrow> integrate_steps (x_axis_solution 2) 1 m (3 / 2, 0, 0)
    = ([(3 / 2, 0, 0), (2, 0, 0)], reached_outer)"
  by (cases m) (simp_all add: x_axis_solution_def)

lemma steps_C: "integrate_steps (x_axis_solution 3) 1 (Suc 0) (3 / 2, 0, 0)
    = ([(3 / 2, 0, 0), (2, 0, 0)], max_steps_exceeded)"
  by (simp add: x_axis_solution_def)

lemma trace_accepted_log:
  assumes "shape seeds = [n, 3]"
  shows "trace mul self seeds out = (Inr [], []) \<or> snd (trace mul self seeds out) \<noteq> []"
proof (cases n)
  case 0
  then show ?thesis
    using trace_valid_batch [OF assms, of mul self out] by simp
next
  case (Suc k)
  then have "map (seed_row seeds) [0..<n] = seed_row seeds 0 # map (seed_row seeds) [1..<n]"
    by (simp add: upt_conv_Cons del: upt_Suc)
  then have "take 2 (snd (trace mul self seeds out)) \<noteq> []"
    unfolding trace_valid_batch [OF assms] by (simp only: trace_loop_first_calls) simp
  then show ?thesis by auto
qed

lemma trace_atleast_2d: "trace mul self (atleast_2d seeds) out = trace mul self seeds out"
  by (simp add: trace_def atleast_2d_def ndim_def)

section \<open>The claims\<close>

text \<open>
  C1. For a batch of shape \<open>(n, 3)\<close> whose seeds the integrator answers with arrays of
  samples, \<open>trace\<close> returns exactly \<open>n\<close> field lines, and the \<open>i\<close>-th of them is the
  one built by the loop body from \<open>seeds[i]\<close>: its points are the samples integrated from
  that seed.
\<close>

theorem trace_preserves_order:
  assumes "shape seeds = [n, 3]"
      and "\<forall>i<n. integrates_ok self out (seed_row seeds i)"
  shows "\<exists>flines. fst (trace mul self seeds out) = Inr flines
     \<and> length flines = n
     \<and> (\<forall>i<n. trace_seed mul self out (seed_row seeds i) = Inr (flines ! i)
           \<and> fl_points (flines ! i) =
               map (scale_point mul)
                 (rev (samples (integrate_one_way out (- 1) (seed_row seeds i) (rtol self) (atol self)))
                  @ samples (integrate_one_way out 1 (seed_row seeds i) (rtol self) (atol self))))"
proof -
  let ?rows = "map (seed_row seeds) [0..<n]"
  let ?new = "map (\<lambda>i. projr (trace_seed mul self out (seed_row seeds i))) [0..<n]"
  have each: "trace_seed mul self out (seed_row seeds i) = Inr (?new ! i)" if "i < n" for i
    using trace_seed_ok [of self out "seed_row seeds i" mul] assms(2) that by auto
  then have "map (trace_seed mul self out) ?rows = map Inr ?new"
    by (simp add: list_eq_iff_nth_eq)
  then have "trace_loop mul self out ?rows [] [] =
      (Inr ([] @ ?new),
       [] @ concat (map (\<lambda>s. [(1, s, rtol self, atol self), (- 1, s, rtol self, atol self)]) ?rows))"
    by (rule trace_loop_ok)
  then have res: "fst (trace mul self seeds out) = Inr ?new"
    by (simp add: trace_valid_batch [OF assms(1)])
  have "fl_points (?new ! i) =
               map (scale_point mul)
                 (rev (samples (integrate_one_way out (- 1) (seed_row seeds i) (rtol self) (atol self)))
                  @ samples (integrate_one_way out 1 (seed_row seeds i) (rtol self) (atol self)))"
    if "i < n" for i
    using fl_points_trace_seed [OF _ each [OF that]] assms(2) that by blast
  with each res show ?thesis
    by (intro exI [of _ ?new]) simp
qed

text \<open>An instance on concrete inputs.\<close>

theorem trace_preserves_order_witness:
  "shape example_seeds = [2, 3]
   \<and> integrates_ok example_tracer example_output (seed_row example_seeds 0)
   \<and> integrates_ok example_tracer example_output (seed_row example_seeds 1)
   \<and> map_sum id length (fst (trace Times_R_sun example_tracer example_seeds example_output)) = Inr 2
   \<and> map_sum id (map fl_points) (fst (trace Times_R_sun example_tracer example_seeds example_output))
      = Inr [[(Times_R_sun (Finite (- 1)), Times_R_sun (Finite 0), Times_R_sun (Finite 0)),
              (Times_R_sun (Finite 1), Times_R_sun (Finite 2), Times_R_sun (Finite 3)),
              (Times_R_sun (Finite 1), Times_R_sun (Finite 2), Times_R_sun (Finite 3)),
              (Times_R_sun (Finite 1), Times_R_sun (Finite 0), Times_R_sun (Finite 0))],
             [(Times_R_sun (Finite (- 1)), Times_R_sun (Finite 0), Times_R_sun (Finite 0)),
              (Times_R_sun (Finite 4), Times_R_sun (Finite 5), Times_R_sun (Finite 6)),
              (Times_R_sun (Finite 4), Times_R_sun (Finite 5), Times_R_sun (Finite 6)),
              (Times_R_sun (Finite 1), Times_R_sun (Finite 0), Times_R_sun (Finite 0))]]"
proof -
  have h1: "shape example_seeds = [2, 3]"
    by (simp add: example_seeds_def)
  have ok: "integrates_ok example_tracer example_output seed" for seed
    by (rule integrates_ok_two_samples) (simp add: example_output_def)
  then have h2: "\<forall>i<2. integrates_ok example_tracer example_output (seed_row example_seeds i)"
    by simp
  from trace_preserves_order [OF h1 h2, of Times_R_sun]
  obtain flines where
    "fst (trace Times_R_sun example_tracer example_seeds example_output) = Inr flines"
    "length flines = 2"
    by blast
  moreover have
    "map_sum id (map fl_points) (fst (trace Times_R_sun example_tracer example_seeds example_output))
      = Inr [[(Times_R_sun (Finite (- 1)), Times_R_sun (Finite 0), Times_R_sun (Finite 0)),
              (Times_R_sun (Finite 1), Times_R_sun (Finite 2), Times_R_sun (Finite 3)),
              (Times_R_sun (Finite 1), Times_R_sun (Finite 2), Times_R_sun (Finite 3)),
              (Times_R_sun (Finite 1), Times_R_sun (Finite 0), Times_R_sun (Finite 0))],
             [(Times_R_sun (Finite (- 1)), Times_R_sun (Finite 0), Times_R_sun (Finite 0)),
              (Times_R_sun (Finite 4), Times_R_sun (Finite 5), Times_R_sun (Finite 6)),
              (Times_R_sun (Finite 4), Times_R_sun (Finite 5), Times_R_sun (Finite 6)),
              (Times_R_sun (Finite 1), Times_R_sun (Finite 0), Times_R_sun (Finite 0))]]"
    by code_simp
  ultimately show ?thesis
    using h1 ok by simp
qed

text \<open>
  C2, as the code has it. Stitching removes nothing: when both half-lines start at the
  seed, the stitched sequence has as many points as the two half-lines together, and
  the seed sample stands at the two positions on either side of the junction, so it
  occurs at least twice.
\<close>

theorem seed_sample_kept_twice:
  assumes "integrates_ok self out seed"
      and "samples (integrate_one_way out (- 1) seed (rtol self) (atol self)) \<noteq> []"
      and "samples (integrate_one_way out 1 seed (rtol self) (atol self)) \<noteq> []"
      and "hd (samples (integrate_one_way out (- 1) seed (rtol self) (atol self))) = point_of seed"
      and "hd (samples (integrate_one_way out 1 seed (rtol self) (atol self))) = point_of seed"
  shows "\<exists>fl. trace_seed mul self out seed = Inr fl
     \<and> length (fl_points fl) =
         length (samples (integrate_one_way out (- 1) seed (rtol self) (atol self)))
         + length (samples (integrate_one_way out 1 seed (rtol self) (atol self)))
     \<and> fl_points fl ! (length (samples (integrate_one_way out (- 1) seed (rtol self) (atol self))) - 1)
         = scale_point mul (point_of seed)
     \<and> fl_points fl ! length (samples (integrate_one_way out (- 1) seed (rtol self) (atol self)))
         = scale_point mul (point_of seed)
     \<and> 2 \<le> seed_occurrences mul seed fl"
proof -
  let ?b = "samples (integrate_one_way out (- 1) seed (rtol self) (atol self))"
  let ?f = "samples (integrate_one_way out 1 seed (rtol self) (atol self))"
  from trace_seed_ok [OF assms(1)] obtain fl where fl: "trace_seed mul self out seed = Inr fl"
    by blast
  note pts = fl_points_trace_seed [OF assms(1) fl]
  from assms(2,4) obtain b' where b: "?b = point_of seed # b'"
    by (cases ?b) auto
  from assms(3,5) obtain f' where f: "?f = point_of seed # f'"
    by (cases ?f) auto
  have "fl_points fl = map (scale_point mul) (rev b')
      @ scale_point mul (point_of seed) # scale_point mul (point_of seed) # map (scale_point mul) f'"
    by (simp add: pts b f)
  then show ?thesis
    using fl by (simp add: b f seed_occurrences_def nth_append)
qed

text \<open>An instance on concrete inputs.\<close>

theorem seed_sample_kept_twice_witness:
  "integrates_ok example_tracer example_output example_seed
   \<and> samples (integrate_one_way example_output (- 1) example_seed
        (rtol example_tracer) (atol example_tracer)) =
       [point_of example_seed, (Finite (- 1), Finite 0, Finite 0)]
   \<and> samples (integrate_one_way example_output 1 example_seed
        (rtol example_tracer) (atol example_tracer)) =
       [point_of example_seed, (Finite 1, Finite 0, Finite 0)]
   \<and> (\<exists>fl. trace_seed Times_R_sun example_tracer example_output example_seed = Inr fl
         \<and> length (fl_points fl) = 4
         \<and> fl_points fl ! 1 = scale_point Times_R_sun (point_of example_seed)
         \<and> fl_points fl ! 2 = scale_point Times_R_sun (point_of example_seed)
         \<and> 2 \<le> seed_occurrences Times_R_sun example_seed fl)"
proof -
  have ok: "integrates_ok example_tracer example_output example_seed"
    by (rule integrates_ok_two_samples) (simp add: example_output_def)
  have b: "samples (integrate_one_way example_output (- 1) example_seed
        (rtol example_tracer) (atol example_tracer)) =
       [point_of example_seed, (Finite (- 1), Finite 0, Finite 0)]"
    by (simp add: example_output_def samples_two_samples)
  have f: "samples (integrate_one_way example_output 1 example_seed
        (rtol example_tracer) (atol example_tracer)) =
       [point_of example_seed, (Finite 1, Finite 0, Finite 0)]"
    by (simp add: example_output_def samples_two_samples)
  from seed_sample_kept_twice [OF ok, of Times_R_sun] b f ok
  show ?thesis by (simp add: eval_nat_numeral)
qed

text \<open>
  The seed is not kept once only: with both half-lines starting at the seed \<open>(1, 2, 3)\<close>,
  it occurs twice in the stitched sequence.
\<close>

theorem seed_sample_counterexample:
  "hd (samples (two_samples 1 example_seed (rtol example_tracer) (atol example_tracer)))
     = point_of example_seed
   \<and> hd (samples (two_samples (- 1) example_seed (rtol example_tracer) (atol example_tracer)))
     = point_of example_seed
   \<and> map_sum id (seed_occurrences Times_R_sun example_seed)
       (trace_seed Times_R_sun example_tracer example_output example_seed) = Inr 2"
proof -
  have "map_sum id (seed_occurrences Times_R_sun example_seed)
       (trace_seed Times_R_sun example_tracer example_output example_seed) = Inr 2"
    by code_simp
  then show ?thesis
    by (simp add: samples_two_samples)
qed

text \<open>
  C3. \<open>validate_seeds_shape\<close> raises (a \<open>ValueError\<close> carrying the shape) exactly when
  the batch is not 2-dimensional or its second dimension is not 3, it raises nothing
  else, and a batch of shape \<open>(n, 3)\<close> passes.
\<close>

theorem validate_seeds_shape_raises_iff:
  "((\<exists>msg. validate_seeds_shape seeds = Inl (ValueError msg (shape seeds)))
      \<longleftrightarrow> (ndim seeds \<noteq> 2 \<or> shape seeds ! 1 \<noteq> 3))
   \<and> (\<forall>e. validate_seeds_shape seeds = Inl e \<longrightarrow> (\<exists>msg. e = ValueError msg (shape seeds)))
   \<and> (shape seeds = [n, 3] \<longrightarrow> validate_seeds_shape seeds = Inr ())"
  by (auto simp add: validate_seeds_shape_def ndim_def)

text \<open>An instance on concrete inputs.\<close>

theorem validate_seeds_shape_raises_iff_witness:
  "ndim example_seed \<noteq> 2
   \<and> validate_seeds_shape example_seed = Inl (ValueError ''seeds must be a 2D array (got shape '' [3])
   \<and> shape malformed_seeds ! 1 \<noteq> 3
   \<and> validate_seeds_shape malformed_seeds
       = Inl (ValueError ''seeds must be a (n, 3) shaped array (got shape '' [2, 2])
   \<and> shape example_seeds = [2, 3]
   \<and> validate_seeds_shape example_seeds = Inr ()"
  using validate_seeds_shape_raises_iff [of example_seed 0]
        validate_seeds_shape_raises_iff [of malformed_seeds 0]
        validate_seeds_shape_raises_iff [of example_seeds 2]
  by (simp add: validate_seeds_shape_def ndim_def example_seed_def malformed_seeds_def
      example_seeds_def)

text \<open>
  C4, as the code has it. Validation looks at the shape only: replacing the
  coordinates of a batch by any others leaves its outcome unchanged, so a batch of
  shape \<open>(n, 3)\<close> with \<open>n \<ge> 1\<close> passes whatever its coordinates are, and \<open>trace\<close> then
  calls the integrator on its first seed, in both directions.
\<close>

theorem validation_ignores_values:
  "validate_seeds_shape (seeds\<lparr>data := d\<rparr>) = validate_seeds_shape seeds
   \<and> (shape seeds = [Suc n, 3] \<longrightarrow>
        validate_seeds_shape (seeds\<lparr>data := d\<rparr>) = Inr ()
        \<and> take 2 (snd (trace mul self (seeds\<lparr>data := d\<rparr>) out))
            = [(1, seed_row (seeds\<lparr>data := d\<rparr>) 0, rtol self, atol self),
               (- 1, seed_row (seeds\<lparr>data := d\<rparr>) 0, rtol self, atol self)])"
proof -
  have "take 2 (snd (trace mul self (seeds\<lparr>data := d\<rparr>) out))
            = [(1, seed_row (seeds\<lparr>data := d\<rparr>) 0, rtol self, atol self),
               (- 1, seed_row (seeds\<lparr>data := d\<rparr>) 0, rtol self, atol self)]"
    if "shape seeds = [Suc n, 3]"
  proof -
    have "shape (seeds\<lparr>data := d\<rparr>) = [Suc n, 3]"
      using that by simp
    then have "trace mul self (seeds\<lparr>data := d\<rparr>) out =
        trace_loop mul self out (map (seed_row (seeds\<lparr>data := d\<rparr>)) [0..<Suc n]) [] []"
      by (rule trace_valid_batch)
    also have "map (seed_row (seeds\<lparr>data := d\<rparr>)) [0..<Suc n] =
        seed_row (seeds\<lparr>data := d\<rparr>) 0 # map (seed_row (seeds\<lparr>data := d\<rparr>)) [1..<Suc n]"
      by (simp add: upt_conv_Cons del: upt_Suc)
    finally show ?thesis
      by (simp only: trace_loop_first_calls)
  qed
  then show ?thesis
    by (simp add: validate_seeds_shape_def ndim_def)
qed

text \<open>An instance on concrete inputs.\<close>

theorem validation_ignores_values_witness:
  "shape example_seeds = [Suc 1, 3]
   \<and> validate_seeds_shape (example_seeds\<lparr>data := [NaN, NaN, NaN, PosInf, NegInf, NaN]\<rparr>) = Inr ()
   \<and> take 2 (snd (trace Times_R_sun example_tracer
          (example_seeds\<lparr>data := [NaN, NaN, NaN, PosInf, NegInf, NaN]\<rparr>) example_output))
       = [(1, \<lparr>shape = [3], data = [NaN, NaN, NaN]\<rparr>, rtol example_tracer, atol example_tracer),
          (- 1, \<lparr>shape = [3], data = [NaN, NaN, NaN]\<rparr>, rtol example_tracer, atol example_tracer)]"
proof -
  have h: "shape example_seeds = [Suc 1, 3]"
    by (simp add: example_seeds_def)
  have "seed_row (example_seeds\<lparr>data := [NaN, NaN, NaN, PosInf, NegInf, NaN]\<rparr>) 0
      = \<lparr>shape = [3], data = [NaN, NaN, NaN]\<rparr>"
    by (simp add: seed_row_def)
  with validation_ignores_values
    [where seeds = example_seeds and d = "[NaN, NaN, NaN, PosInf, NegInf, NaN]" and n = 1
       and mul = Times_R_sun and self = example_tracer and out = example_output]
    h show ?thesis by auto
qed

text \<open>
  A batch with non-finite coordinates is not rejected: \<open>[[nan, 0, inf]]\<close> passes the
  validation, the integrator is called on it in both directions and \<open>trace\<close> returns one
  field line.
\<close>

theorem nonfinite_seed_counterexample:
  "\<not> list_all isfinite (data nonfinite_seeds)
   \<and> validate_seeds_shape nonfinite_seeds = Inr ()
   \<and> snd (trace Times_R_sun example_tracer nonfinite_seeds example_output)
       = [(1, \<lparr>shape = [3], data = [NaN, Finite 0, PosInf]\<rparr>,
             rtol example_tracer, atol example_tracer),
          (- 1, \<lparr>shape = [3], data = [NaN, Finite 0, PosInf]\<rparr>,
             rtol example_tracer, atol example_tracer)]
   \<and> map_sum id length (fst (trace Times_R_sun example_tracer nonfinite_seeds example_output))
       = Inr 1"
proof -
  have "map_sum id length (fst (trace Times_R_sun example_tracer nonfinite_seeds example_output))
       = Inr 1"
    by code_simp
  moreover have "snd (trace Times_R_sun example_tracer nonfinite_seeds example_output)
       = [(1, \<lparr>shape = [3], data = [NaN, Finite 0, PosInf]\<rparr>,
             rtol example_tracer, atol example_tracer),
          (- 1, \<lparr>shape = [3], data = [NaN, Finite 0, PosInf]\<rparr>,
             rtol example_tracer, atol example_tracer)]"
    by code_simp
  ultimately show ?thesis
    by (simp add: nonfinite_seeds_def validate_seeds_shape_def ndim_def)
qed

text \<open>
  C5, as the code has it. The field line built for a seed records no status. Apart
  from its back reference to the output object, it is determined by the two arrays of
  samples that the integrator returns for the seed and by the time tag of the output
  object: any two output objects that agree on these give the same field line. Its
  other attributes are the fixed frame and representation type and an expansion factor
  of \<open>None\<close>.
\<close>

theorem field_line_from_samples_alone:
  assumes "integrate_one_way out1 1 seed (rtol self) (atol self)
             = integrate_one_way out2 1 seed (rtol self) (atol self)"
      and "integrate_one_way out1 (- 1) seed (rtol self) (atol self)
             = integrate_one_way out2 (- 1) seed (rtol self) (atol self)"
      and "dtime out1 = dtime out2"
  shows "with_output out (trace_seed mul self out1 seed)
       = with_output out (trace_seed mul self out2 seed)
     \<and> (\<forall>fl. trace_seed mul self out1 seed = Inr fl \<longrightarrow>
           fl_frame fl = HeliographicCarrington \<and> fl_obstime fl = dtime out1
         \<and> fl_representation_type fl = ''cartesian'' \<and> fl_output fl = out1
         \<and> fl_expansion_factor fl = None)"
  using trace_seed_same_samples [OF assms] trace_seed_attributes by blast

text \<open>
  An instance: a shell of outer radius 3 with at most one step, and a shell of outer
  radius 2 with at most two steps, return the same samples for the seed
  \<open>(3/2, 0, 0)\<close>.
\<close>

theorem field_line_from_samples_alone_witness:
  "integrate_one_way (spec_output (x_axis_solution 3) 1 ()) 1 mid_seed
       (rtol example_tracer) (atol example_tracer)
     = integrate_one_way (spec_output (x_axis_solution 2) 2 ()) 1 mid_seed
       (rtol example_tracer) (atol example_tracer)
   \<and> integrate_one_way (spec_output (x_axis_solution 3) 1 ()) (- 1) mid_seed
       (rtol example_tracer) (atol example_tracer)
     = integrate_one_way (spec_output (x_axis_solution 2) 2 ()) (- 1) mid_seed
       (rtol example_tracer) (atol example_tracer)
   \<and> dtime (spec_output (x_axis_solution 3) 1 ()) = dtime (spec_output (x_axis_solution 2) 2 ())
   \<and> with_output example_output
        (trace_seed Times_R_sun example_tracer (spec_output (x_axis_solution 3) 1 ()) mid_seed)
     = with_output example_output
        (trace_seed Times_R_sun example_tracer (spec_output (x_axis_solution 2) 2 ()) mid_seed)"
proof -
  let ?A = "spec_output (x_axis_solution 3) 1 ()"
  let ?B = "spec_output (x_axis_solution 2) 2 ()"
  have f: "integrate_one_way ?A 1 mid_seed (rtol example_tracer) (atol example_tracer)
      = integrate_one_way ?B 1 mid_seed (rtol example_tracer) (atol example_tracer)"
    by (simp add: mid_seed_def integrate_one_way_spec_output steps_C steps_B
        del: integrate_steps.simps)
  have b: "integrate_one_way ?A (- 1) mid_seed (rtol example_tracer) (atol example_tracer)
      = integrate_one_way ?B (- 1) mid_seed (rtol example_tracer) (atol example_tracer)"
    by (simp add: mid_seed_def integrate_one_way_spec_output steps_inward
        del: integrate_steps.simps)
  have t: "dtime ?A = dtime ?B"
    by (simp add: spec_output_def)
  from field_line_from_samples_alone [OF f b t, of example_output Times_R_sun] f b t
  show ?thesis by blast
qed

text \<open>
  No marker tells a line that hit the step limit from one that did not. In a shell of
  outer radius \<open>5/2\<close> with at most one step, the outward half-trace from \<open>(3/2, 0, 0)\<close>
  stops at \<open>(2, 0, 0)\<close>, inside the shell, because the step count reached the maximum.
  In a shell of outer radius 2 with at most three steps it stops at the same point
  because that is the outer boundary. The two output objects differ, and the two field
  lines are the same apart from their back reference.
\<close>

theorem non_converged_line_counterexample:
  "half_trace_status (x_axis_solution (5 / 2)) 1 1 mid_seed = Some max_steps_exceeded
   \<and> half_trace_status (x_axis_solution 2) 3 1 mid_seed = Some reached_outer
   \<and> half_trace_status (x_axis_solution (5 / 2)) 1 (- 1) mid_seed = Some reached_inner
   \<and> half_trace_status (x_axis_solution 2) 3 (- 1) mid_seed = Some reached_inner
   \<and> spec_output (x_axis_solution (5 / 2)) 1 () \<noteq> spec_output (x_axis_solution 2) 3 ()
   \<and> with_output example_output
        (trace_seed Times_R_sun example_tracer (spec_output (x_axis_solution (5 / 2)) 1 ()) mid_seed)
     = with_output example_output
        (trace_seed Times_R_sun example_tracer (spec_output (x_axis_solution 2) 3 ()) mid_seed)
   \<and> map_sum id fl_points
        (trace_seed Times_R_sun example_tracer (spec_output (x_axis_solution (5 / 2)) 1 ()) mid_seed)
     = Inr [(Times_R_sun (Finite 1), Times_R_sun (Finite 0), Times_R_sun (Finite 0)),
            (Times_R_sun (Finite (3 / 2)), Times_R_sun (Finite 0), Times_R_sun (Finite 0)),
            (Times_R_sun (Finite (3 / 2)), Times_R_sun (Finite 0), Times_R_sun (Finite 0)),
            (Times_R_sun (Finite 2), Times_R_sun (Finite 0), Times_R_sun (Finite 0))]"
proof -
  let ?A = "spec_output (x_axis_solution (5 / 2)) 1 ()"
  let ?B = "spec_output (x_axis_solution 2) 3 ()"
  have st: "half_trace_status (x_axis_solution (5 / 2)) 1 1 mid_seed = Some max_steps_exceeded"
    "half_trace_status (x_axis_solution 2) 3 1 mid_seed = Some reached_outer"
    "half_trace_status (x_axis_solution (5 / 2)) 1 (- 1) mid_seed = Some reached_inner"
    "half_trace_status (x_axis_solution 2) 3 (- 1) mid_seed = Some reached_inner"
    by (simp_all add: half_trace_status_def mid_seed_def steps_A steps_B steps_inward
        del: integrate_steps.simps)
  have f: "integrate_one_way ?A 1 mid_seed rt atl = integrate_one_way ?B 1 mid_seed rt atl"
    and b: "integrate_one_way ?A (- 1) mid_seed rt atl = integrate_one_way ?B (- 1) mid_seed rt atl"
    for rt atl
    by (simp_all add: mid_seed_def integrate_one_way_spec_output steps_A steps_B steps_inward
        del: integrate_steps.simps)
  have eq: "with_output example_output (trace_seed Times_R_sun example_tracer ?A mid_seed)
      = with_output example_output (trace_seed Times_R_sun example_tracer ?B mid_seed)"
    by (rule trace_seed_same_samples [OF f b]) (simp add: spec_output_def)
  have "integrate_one_way ?A 1 \<lparr>shape = [3], data = [Finite 2, Finite 0, Finite 0]\<rparr> (Finite 0) (Finite 0)
      \<noteq> integrate_one_way ?B 1 \<lparr>shape = [3], data = [Finite 2, Finite 0, Finite 0]\<rparr> (Finite 0) (Finite 0)"
    by (simp add: integrate_one_way_spec_output x_axis_solution_def array_of_points_def
        eval_nat_numeral radius_on_axis del: radius.simps)
  then have ne: "?A \<noteq> ?B"
    by metis
  have ok: "integrates_ok example_tracer ?A mid_seed"
    by (simp add: integrates_ok_def mid_seed_def integrate_one_way_spec_output steps_A
        steps_inward xyz_array_def wf_ndarray_def array_of_points_def
        del: integrate_steps.simps)
  from trace_seed_ok [OF ok, of Times_R_sun] obtain fl where
    fl: "trace_seed Times_R_sun example_tracer ?A mid_seed = Inr fl"
    by blast
  have "fl_points fl = [(Times_R_sun (Finite 1), Times_R_sun (Finite 0), Times_R_sun (Finite 0)),
            (Times_R_sun (Finite (3 / 2)), Times_R_sun (Finite 0), Times_R_sun (Finite 0)),
            (Times_R_sun (Finite (3 / 2)), Times_R_sun (Finite 0), Times_R_sun (Finite 0)),
            (Times_R_sun (Finite 2), Times_R_sun (Finite 0), Times_R_sun (Finite 0))]"
    unfolding fl_points_trace_seed [OF ok fl]
    by (simp add: mid_seed_def integrate_one_way_spec_output steps_A steps_inward
        samples_def component_def array_of_points_def del: integrate_steps.simps)
  with fl st eq ne show ?thesis
    by simp
qed

text \<open>
  C6, as the code has it. The constructor stores the two tolerances exactly as they
  are given (\<open>1e-4\<close> each when left out) and never fails, whatever their values.
\<close>

theorem PythonTracer_init_stores_unchecked:
  "PythonTracer_init (Some a) (Some r) = Inr \<lparr>atol = a, rtol = r\<rparr>
   \<and> PythonTracer_init None None = Inr \<lparr>atol = Finite (1 / 10 ^ 4), rtol = Finite (1 / 10 ^ 4)\<rparr>
   \<and> (\<exists>tracer. PythonTracer_init atol_arg rtol_arg = Inr tracer)"
  by (simp add: PythonTracer_init_def)

text \<open>
  Invalid tolerances do not fail: a negative absolute tolerance and a relative tolerance
  that is not a number are stored.
\<close>

theorem PythonTracer_init_counterexample:
  "\<not> spec_tolerance_ok (Finite (- 1)) \<and> \<not> spec_tolerance_ok NaN
   \<and> PythonTracer_init (Some (Finite (- 1))) (Some NaN) = Inr \<lparr>atol = Finite (- 1), rtol = NaN\<rparr>"
  by (simp add: PythonTracer_init_def)

text \<open>
  C7. For a seed that the integrator answers with arrays of samples, the point sequence
  of the field line is the inward sequence reversed, followed by the outward sequence
  (each coordinate times \<open>const.R_sun\<close>): it starts at the end of the inward half-line
  and stops at the end of the outward one.
\<close>

theorem stitched_points:
  assumes "integrates_ok self out seed"
  shows "\<exists>fl. trace_seed mul self out seed = Inr fl
     \<and> fl_points fl =
         map (scale_point mul)
           (rev (samples (integrate_one_way out (- 1) seed (rtol self) (atol self)))
            @ samples (integrate_one_way out 1 seed (rtol self) (atol self)))
     \<and> (samples (integrate_one_way out (- 1) seed (rtol self) (atol self)) \<noteq> [] \<longrightarrow>
          hd (fl_points fl) =
            scale_point mul (last (samples (integrate_one_way out (- 1) seed (rtol self) (atol self)))))
     \<and> (samples (integrate_one_way out 1 seed (rtol self) (atol self)) \<noteq> [] \<longrightarrow>
          last (fl_points fl) =
            scale_point mul (last (samples (integrate_one_way out 1 seed (rtol self) (atol self)))))"
proof -
  from trace_seed_ok [OF assms] obtain fl where fl: "trace_seed mul self out seed = Inr fl"
    by blast
  note pts = fl_points_trace_seed [OF assms fl]
  show ?thesis
    using fl by (auto simp add: pts hd_append hd_map hd_rev last_map)
qed

text \<open>An instance on concrete inputs.\<close>

theorem stitched_points_witness:
  "integrates_ok example_tracer example_output example_seed
   \<and> map_sum id fl_points (trace_seed Times_R_sun example_tracer example_output example_seed)
     = Inr [(Times_R_sun (Finite (- 1)), Times_R_sun (Finite 0), Times_R_sun (Finite 0)),
            (Times_R_sun (Finite 1), Times_R_sun (Finite 2), Times_R_sun (Finite 3)),
            (Times_R_sun (Finite 1), Times_R_sun (Finite 2), Times_R_sun (Finite 3)),
            (Times_R_sun (Finite 1), Times_R_sun (Finite 0), Times_R_sun (Finite 0))]"
proof -
  have ok: "integrates_ok example_tracer example_output example_seed"
    by (rule integrates_ok_two_samples) (simp add: example_output_def)
  from stitched_points [OF ok, of Times_R_sun] obtain fl where
    "trace_seed Times_R_sun example_tracer example_output example_seed = Inr fl"
    "fl_points fl = map (scale_point Times_R_sun)
           (rev (samples (integrate_one_way example_output (- 1) example_seed
                   (rtol example_tracer) (atol example_tracer)))
            @ samples (integrate_one_way example_output 1 example_seed
                   (rtol example_tracer) (atol example_tracer)))"
    by blast
  then show ?thesis
    using ok by (simp add: example_output_def samples_two_samples point_of_def example_seed_def)
qed

text \<open>
  C8, as the code has it. \<open>trace\<close> rejects a batch before any integration exactly when
  its shape is wrong, that is when it is neither a single seed of shape \<open>(3,)\<close> nor a
  batch of shape \<open>(n, 3)\<close>: it then raises the \<open>ValueError\<close> of the shape validation and
  has made no call to the integrator. A non-empty batch of the right shape always
  reaches the integrator, whatever its coordinates are.
\<close>

theorem trace_rejects_wrong_shape_only:
  "((\<exists>msg. trace mul self seeds out = (Inl (ValueError msg (shape (atleast_2d seeds))), []))
      \<longleftrightarrow> shape seeds \<noteq> [3] \<and> \<not> (ndim seeds = 2 \<and> shape seeds ! 1 = 3))
   \<and> (shape seeds = [3] \<or> shape seeds = [Suc n, 3] \<longrightarrow> snd (trace mul self seeds out) \<noteq> [])"
proof -
  have rej: "\<exists>msg. trace mul self seeds out = (Inl (ValueError msg (shape (atleast_2d seeds))), [])"
    if "shape seeds \<noteq> [3]" "\<not> (ndim seeds = 2 \<and> shape seeds ! 1 = 3)"
  proof -
    have "length (shape seeds) = 1 \<Longrightarrow> shape seeds ! 0 \<noteq> 3"
      using that(1) by (cases "shape seeds") auto
    then have "ndim (atleast_2d seeds) \<noteq> 2 \<or> shape (atleast_2d seeds) ! 1 \<noteq> 3"
      using that(2) by (auto simp add: atleast_2d_def ndim_def)
    then show ?thesis
      by (auto simp add: trace_def validate_seeds_shape_def Let_def)
  qed
  have acc: "trace mul self seeds out = (Inr [], []) \<or> snd (trace mul self seeds out) \<noteq> []"
    if "shape seeds = [3] \<or> ndim seeds = 2 \<and> shape seeds ! 1 = 3"
  proof -
    from that obtain k where "shape (atleast_2d seeds) = [k, 3]"
      by (cases "shape seeds"; cases "tl (shape seeds)")
        (auto simp add: atleast_2d_def ndim_def)
    from trace_accepted_log [OF this, of mul self out] show ?thesis
      by (simp add: trace_atleast_2d)
  qed
  have started: "snd (trace mul self seeds out) \<noteq> []"
    if "shape seeds = [3] \<or> shape seeds = [Suc n, 3]"
  proof -
    from that obtain k where sh: "shape (atleast_2d seeds) = [Suc k, 3]"
      by (auto simp add: atleast_2d_def ndim_def)
    have "map (seed_row (atleast_2d seeds)) [0..<Suc k] =
        seed_row (atleast_2d seeds) 0 # map (seed_row (atleast_2d seeds)) [1..<Suc k]"
      by (simp add: upt_conv_Cons del: upt_Suc)
    then have "take 2 (snd (trace mul self (atleast_2d seeds) out)) \<noteq> []"
      unfolding trace_valid_batch [OF sh] by (simp only: trace_loop_first_calls) simp
    then show ?thesis
      by (auto simp add: trace_atleast_2d)
  qed
  from rej acc started show ?thesis
    by (auto simp add: ndim_def)
qed

text \<open>An instance on concrete inputs: a batch of shape \<open>(2, 2)\<close> and one of shape \<open>(2, 3)\<close>.\<close>

theorem trace_rejects_wrong_shape_only_witness:
  "shape malformed_seeds \<noteq> [3] \<and> \<not> (ndim malformed_seeds = 2 \<and> shape malformed_seeds ! 1 = 3)
   \<and> trace Times_R_sun example_tracer malformed_seeds example_output
     = (Inl (ValueError ''seeds must be a (n, 3) shaped array (got shape '' [2, 2]), [])
   \<and> shape mixed_seeds = [Suc 1, 3]
   \<and> snd (trace Times_R_sun example_tracer mixed_seeds example_output) \<noteq> []"
proof -
  have h: "shape malformed_seeds \<noteq> [3] \<and> \<not> (ndim malformed_seeds = 2 \<and> shape malformed_seeds ! 1 = 3)"
    by (simp add: malformed_seeds_def ndim_def)
  have g: "shape mixed_seeds = [Suc 1, 3]"
    by (simp add: mixed_seeds_def)
  have "trace Times_R_sun example_tracer malformed_seeds example_output
     = (Inl (ValueError ''seeds must be a (n, 3) shaped array (got shape '' [2, 2]), [])"
    using trace_rejects_wrong_shape_only
      [where seeds = malformed_seeds and mul = Times_R_sun and self = example_tracer
         and out = example_output and n = 0] h
    by (auto simp add: trace_def validate_seeds_shape_def atleast_2d_def ndim_def malformed_seeds_def)
  moreover have "snd (trace Times_R_sun example_tracer mixed_seeds example_output) \<noteq> []"
    using trace_rejects_wrong_shape_only
      [where seeds = mixed_seeds and mul = Times_R_sun and self = example_tracer
         and out = example_output and n = 1] g
    by blast
  ultimately show ?thesis
    using h g by blast
qed

text \<open>
  A batch whose second seed has non-finite coordinates is not rejected as a whole: both
  seeds are integrated, in both directions, and \<open>trace\<close> returns two field lines.
\<close>

theorem malformed_batch_counterexample:
  "\<not> list_all isfinite (data mixed_seeds)
   \<and> map_sum id length (fst (trace Times_R_sun example_tracer mixed_seeds example_output)) = Inr 2
   \<and> snd (trace Times_R_sun example_tracer mixed_seeds example_output)
     = [(1, \<lparr>shape = [3], data = [Finite 1, Finite 2, Finite 3]\<rparr>,
           rtol example_tracer, atol example_tracer),
        (- 1, \<lparr>shape = [3], data = [Finite 1, Finite 2, Finite 3]\<rparr>,
           rtol example_tracer, atol example_tracer),
        (1, \<lparr>shape = [3], data = [NaN, NegInf, Finite 0]\<rparr>,
           rtol example_tracer, atol example_tracer),
        (- 1, \<lparr>shape = [3], data = [NaN, NegInf, Finite 0]\<rparr>,
           rtol example_tracer, atol example_tracer)]"
proof -
  have "map_sum id length (fst (trace Times_R_sun example_tracer mixed_seeds example_output)) = Inr 2"
    by code_simp
  moreover have "snd (trace Times_R_sun example_tracer mixed_seeds example_output)
     = [(1, \<lparr>shape = [3], data = [Finite 1, Finite 2, Finite 3]\<rparr>,
           rtol example_tracer, atol example_tracer),
        (- 1, \<lparr>shape = [3], data = [Finite 1, Finite 2, Finite 3]\<rparr>,
           rtol example_tracer, atol example_tracer),
        (1, \<lparr>shape = [3], data = [NaN, NegInf, Finite 0]\<rparr>,
           rtol example_tracer, atol example_tracer),
        (- 1, \<lparr>shape = [3], data = [NaN, NegInf, Finite 0]\<rparr>,
           rtol example_tracer, atol example_tracer)]"
    by code_simp
  ultimately show ?thesis
    by (simp add: mixed_seeds_def)
qed

text \<open>
  C9. For a batch of shape \<open>(n, 3)\<close>, \<open>trace\<close> returns the field lines \<open>flines\<close>
  exactly when, for every \<open>i\<close>, tracing \<open>seeds[i]\<close> alone returns the one-element list
  holding \<open>flines[i]\<close>: the result for a batch is the concatenation of the results for
  its seeds.
\<close>

theorem trace_independent_per_seed:
  assumes "shape seeds = [n, 3]"
  shows "fst (trace mul self seeds out) = Inr flines
     \<longleftrightarrow> map (\<lambda>i. fst (trace mul self (seed_row seeds i) out)) [0..<n]
           = map (\<lambda>fline. Inr [fline]) flines"
proof -
  have single: "fst (trace mul self (seed_row seeds i) out) =
      (case trace_seed mul self out (seed_row seeds i) of
         Inl e \<Rightarrow> Inl e | Inr fline \<Rightarrow> Inr [fline])" for i
    by (subst trace_single) (simp_all add: seed_row_def)
  have "fst (trace mul self seeds out) = Inr flines
      \<longleftrightarrow> map (trace_seed mul self out) (map (seed_row seeds) [0..<n]) = map Inr flines"
    by (simp add: trace_valid_batch [OF assms] trace_loop_iff)
  also have "\<dots> \<longleftrightarrow> map (\<lambda>i. fst (trace mul self (seed_row seeds i) out)) [0..<n]
           = map (\<lambda>fline. Inr [fline]) flines"
    by (auto simp add: list_eq_iff_nth_eq single singleton_result_iff)
  finally show ?thesis .
qed

text \<open>An instance on concrete inputs.\<close>

theorem trace_independent_per_seed_witness:
  "shape example_seeds = [2, 3]
   \<and> map_sum id length (fst (trace Times_R_sun example_tracer example_seeds example_output)) = Inr 2
   \<and> map (\<lambda>i. fst (trace Times_R_sun example_tracer (seed_row example_seeds i) example_output)) [0..<2]
     = map (\<lambda>fline. Inr [fline])
         (projr (fst (trace Times_R_sun example_tracer example_seeds example_output)))"
proof -
  have h: "shape example_seeds = [2, 3]"
    by (simp add: example_seeds_def)
  have len: "map_sum id length (fst (trace Times_R_sun example_tracer example_seeds example_output)) = Inr 2"
    by code_simp
  then have "fst (trace Times_R_sun example_tracer example_seeds example_output)
      = Inr (projr (fst (trace Times_R_sun example_tracer example_seeds example_output)))"
    by (cases "fst (trace Times_R_sun example_tracer example_seeds example_output)") simp_all
  with trace_independent_per_seed [OF h, of Times_R_sun example_tracer example_output
      "projr (fst (trace Times_R_sun example_tracer example_seeds example_output))"] h len
  show ?thesis by simp
qed

text \<open>
  C10. A single 1-d seed of three coordinates is promoted to a batch of shape \<open>(1, 3)\<close>,
  passes the validation, and \<open>trace\<close> runs the loop body once on it: it returns a
  one-element list whenever the integrator answers with arrays of samples.
\<close>

theorem trace_promotes_single_seed:
  assumes "shape seed = [3]" and "wf_ndarray seed"
  shows "atleast_2d seed = \<lparr>shape = [1, 3], data = data seed\<rparr>
       \<and> validate_seeds_shape (atleast_2d seed) = Inr ()
       \<and> trace mul self seed out =
           (case trace_seed mul self out seed of Inl e \<Rightarrow> Inl e | Inr fline \<Rightarrow> Inr [fline],
            [(1, seed, rtol self, atol self), (- 1, seed, rtol self, atol self)])
       \<and> (integrates_ok self out seed \<longrightarrow>
            (\<exists>fline. fst (trace mul self seed out) = Inr [fline]))"
proof -
  have a: "atleast_2d seed = \<lparr>shape = [1, 3], data = data seed\<rparr>"
    using assms(1) by (cases seed) (simp add: atleast_2d_def ndim_def)
  have len: "length (data seed) \<le> 3"
    using assms by (simp add: wf_ndarray_def)
  have t: "trace mul self seed out =
     (case trace_seed mul self out seed of Inl e \<Rightarrow> Inl e | Inr fline \<Rightarrow> Inr [fline],
      [(1, seed, rtol self, atol self), (- 1, seed, rtol self, atol self)])"
    using assms(1) len by (rule trace_single)
  have "\<exists>fline. fst (trace mul self seed out) = Inr [fline]" if "integrates_ok self out seed"
    using trace_seed_ok [OF that, of mul] t by auto
  with a t show ?thesis
    by (simp add: validate_seeds_shape_ok)
qed

text \<open>An instance on concrete inputs.\<close>

theorem trace_promotes_single_seed_witness:
  "shape example_seed = [3] \<and> wf_ndarray example_seed
   \<and> integrates_ok example_tracer example_output example_seed
   \<and> atleast_2d example_seed = \<lparr>shape = [1, 3], data = [Finite 1, Finite 2, Finite 3]\<rparr>
   \<and> map_sum id length (fst (trace Times_R_sun example_tracer example_seed example_output)) = Inr 1"
proof -
  have h1: "shape example_seed = [3]" and h2: "wf_ndarray example_seed"
    by (simp_all add: example_seed_def wf_ndarray_def)
  have ok: "integrates_ok example_tracer example_output example_seed"
    by (rule integrates_ok_two_samples) (simp add: example_output_def)
  from trace_promotes_single_seed [OF h1 h2, of Times_R_sun example_tracer example_output] ok
  obtain fline where "atleast_2d example_seed = \<lparr>shape = [1, 3], data = data example_seed\<rparr>"
    "fst (trace Times_R_sun example_tracer example_seed example_output) = Inr [fline]"
    by blast
  then show ?thesis
    using h1 h2 ok by (simp add: example_seed_def)
qed

end
